theory Spec2Isabelle
  imports Complex_Main "HOL-Library.Word"
begin

unbundle bit_operations_syntax

section \<open>Common types\<close>

text \<open>
  Bytes are 8-bit words.  C strings are byte lists without their terminating NUL; a
  \<open>char *\<close> that may be \<open>NULL\<close> is a \<open>byte list option\<close>.  Values of type
  \<open>double\<close> (time stamps, accumulated time, the seek fractions of the Xing table) are
  modelled by exact rationals: rounding of the binary floating point format is not part
  of this model.  The functions return \<open>SUCCEEDED\<close> or \<open>FAILED\<close> as in the source.
\<close>

type_synonym byte = "8 word"

definition bytes_of :: "string \<Rightarrow> byte list" where
  "bytes_of s = map of_char s"

text \<open>\<open>strrchr(path, '/') + 1\<close> for a path that has a slash: the part after the last one.\<close>

definition basename :: "string \<Rightarrow> string" where
  "basename path = rev (takeWhile (\<lambda>c. c \<noteq> CHR ''/'') (rev path))"

text \<open>Integer division and remainder of C: the quotient is truncated towards zero.\<close>

definition c_div :: "int \<Rightarrow> int \<Rightarrow> int" where
  "c_div a b = sgn a * sgn b * (\<bar>a\<bar> div \<bar>b\<bar>)"

definition c_mod :: "int \<Rightarrow> int \<Rightarrow> int" where
  "c_mod a b = a - b * c_div a b"

text \<open>The conversion \<open>(int) x\<close> of a \<open>double\<close>: the fraction is discarded.\<close>

definition c_trunc :: "rat \<Rightarrow> int" where
  "c_trunc x = (if 0 \<le> x then \<lfloor>x\<rfloor> else \<lceil>x\<rceil>)"

datatype result = FAILED | SUCCEEDED

text \<open>
  Behaviour that C leaves undefined and that the source can reach, and a wait that never
  ends.
\<close>

datatype fault = Null_pointer | Division_by_zero | Conversion_out_of_range | Blocks_forever

section \<open>Packets (encoder.h)\<close>

text \<open>
  \<open>enum packet_flags\<close> is a bit set of ten distinct one-bit constants; it is modelled as
  a set of flags: \<open>f & PF_X\<close> is \<open>PF_X \<in> f\<close>, \<open>a | b\<close> is \<open>a \<union> b\<close> and
  \<open>f &= ~PF_X\<close> is \<open>f - {PF_X}\<close>.
\<close>

datatype packet_flag =
  PF_INITIAL | PF_FINAL | PF_OGG | PF_MP3 | PF_METADATA | PF_HEADER | PF_MP2 | PF_AAC
  | PF_AACP2 | PF_WEBM

record encoder_op_packet =
  bit_rate :: nat
  sample_rate :: nat
  n_channels :: nat
  flags :: "packet_flag set"
  serial :: int
  timestamp :: rat
  data_size :: nat
  data :: "byte list"

section \<open>Output streams (stdio)\<close>

text \<open>
  A \<open>FILE *\<close> opened for writing: the bytes written so far, the sticky error indicator
  and the number of further bytes the device accepts before a write fails.
\<close>

record wstream =
  content :: "byte list"
  ferror_flag :: bool
  budget :: nat

definition fopen_w :: "nat \<Rightarrow> wstream" where
  "fopen_w space = \<lparr>content = [], ferror_flag = False, budget = space\<rparr>"

text \<open>\<open>fwrite(buf, 1, n, fp)\<close>: the number of bytes written and the stream after it.\<close>

definition fwrite_bytes :: "byte list \<Rightarrow> wstream \<Rightarrow> nat \<times> wstream" where
  "fwrite_bytes bs f =
     (if length bs \<le> budget f
      then (length bs, f\<lparr>content := content f @ bs, budget := budget f - length bs\<rparr>)
      else (budget f, f\<lparr>content := content f @ take (budget f) bs, budget := 0,
                         ferror_flag := True\<rparr>))"

text \<open>\<open>fwrite(buf, n, 1, fp)\<close>: one item of n bytes; the result is true when it was written.\<close>

definition fwrite_item :: "byte list \<Rightarrow> wstream \<Rightarrow> bool \<times> wstream" where
  "fwrite_item bs f = (let (n, f') = fwrite_bytes bs f in (bs \<noteq> [] \<and> n = length bs, f'))"

definition fputc :: "byte \<Rightarrow> wstream \<Rightarrow> wstream" where
  "fputc b f = snd (fwrite_bytes [b] f)"

definition ftell :: "wstream \<Rightarrow> int" where
  "ftell f = int (length (content f))"

section \<open>The recorder (recorder.c)\<close>

datatype record_mode = RM_STOPPED | RM_RECORDING | RM_PAUSED | RM_STOPPING

datatype jack_dataflow = JD_OFF | JD_ON | JD_FLUSH

text \<open>
  The lines of a cue sheet, by the \<open>fprintf\<close> that writes them: \<open>TITLE\<close>,
  \<open>PERFORMER\<close>, \<open>FILE\<close> with its type, \<open>TRACK nn AUDIO\<close>, \<open>REM ALBUM\<close> and
  \<open>INDEX 01 mm:ss:ff\<close>.
\<close>

datatype cue_line =
  Cue_title "byte list" | Cue_performer "byte list" | Cue_file string string | Cue_track int
  | Cue_rem_album "byte list" | Cue_index int int int

text \<open>\<open>struct metadata_item\<close>: one chapter entry.\<close>

record metadata_item =
  artist :: "byte list"
  title :: "byte list"
  album :: "byte list"
  time_offset :: int
  time_offset_end :: int
  byte_offset :: int
  byte_offset_end :: int

text \<open>\<open>struct metadata_item2\<close>: one bit rate / sample rate segment.\<close>

record metadata_item2 =
  start_offset_ms :: int
  finish_offset_ms :: int
  byte_offset2 :: int
  size_bytes :: int
  bit_rate2 :: nat
  sample_rate2 :: nat

text \<open>
  \<open>struct recorder\<close>, as far as recorder.c uses it.  The lists \<open>mi_first .. mi_last\<close> and
  \<open>mi2_first .. mi2_last\<close> are HOL lists, \<open>mi_last\<close> being the last element.
  \<open>encoder_op\<close> holds the number of the encoder the recorder is registered with.
\<close>

record recorder =
  numeric_id :: int
  thread_terminate_f :: bool
  record_mode :: record_mode
  encoder_op :: "int option"
  initial_serial :: int
  final_serial :: int
  id3_mode :: bool
  include_xing_tag :: bool
  is_vbr :: bool
  oldbitrate :: nat
  oldsamplerate :: nat
  recording_length_s :: int
  recording_length_ms :: int
  accumulated_time :: rat
  bytes_written :: int
  mi :: "metadata_item list"
  mi2 :: "metadata_item2 list"
  first_mp3_header :: "byte list"
  stop_request :: bool
  stop_pending :: bool
  pause_request :: bool
  pause_pending :: bool
  unpause_request :: bool
  fp :: "wstream option"
  pathname :: "string option"
  cuepathname :: "string option"
  rec_timestamp :: "byte list option"
  fpcue :: "cue_line list option"
  input_rb :: bool
  sf_open :: bool
  sf_samples :: int
  sfinfo_samplerate :: int
  jack_dataflow_control :: jack_dataflow
  new_artist_title :: bool
  artist_title_writes :: int
  rec_artist :: "byte list"
  rec_title :: "byte list"
  rec_album :: "byte list"

text \<open>\<open>recorder_init\<close>: the structure comes from \<open>calloc\<close>, so every field is zero.\<close>

definition recorder_init :: "int \<Rightarrow> recorder" where
  "recorder_init n =
     \<lparr>numeric_id = n, thread_terminate_f = False, record_mode = RM_STOPPED,
      encoder_op = None, initial_serial = 0, final_serial = 0, id3_mode = False,
      include_xing_tag = False, is_vbr = False, oldbitrate = 0, oldsamplerate = 0,
      recording_length_s = 0, recording_length_ms = 0, accumulated_time = 0,
      bytes_written = 0, mi = [], mi2 = [], first_mp3_header = [0, 0, 0, 0],
      stop_request = False, stop_pending = False, pause_request = False,
      pause_pending = False, unpause_request = False, fp = None, pathname = None,
      cuepathname = None, rec_timestamp = None, fpcue = None, input_rb = False,
      sf_open = False, sf_samples = 0, sfinfo_samplerate = 0,
      jack_dataflow_control = JD_OFF, new_artist_title = False, artist_title_writes = 0,
      rec_artist = [], rec_title = [], rec_album = []\<rparr>"

subsection \<open>Chapter metadata: \<open>recorder_append_metadata\<close>\<close>

text \<open>
  \<open>strsep(&stringp, delim)\<close>: the token and the new value of \<open>stringp\<close>.  With
  \<open>stringp == NULL\<close> it returns \<open>NULL\<close>; when no delimiter occurs the token is the whole
  string and \<open>stringp\<close> becomes \<open>NULL\<close>.
\<close>

definition strsep :: "byte list \<Rightarrow> byte list option \<Rightarrow> byte list option \<times> byte list option" where
  "strsep delim stringp =
     (case stringp of
        None \<Rightarrow> (None, None)
      | Some s \<Rightarrow>
          (if set s \<inter> set delim \<noteq> {}
           then (Some (takeWhile (\<lambda>c. c \<notin> set delim) s),
                 Some (tl (dropWhile (\<lambda>c. c \<notin> set delim) s)))
           else (Some s, None)))"

text \<open>The payload read as a C string: the bytes before the first NUL.\<close>

definition c_str :: "byte list \<Rightarrow> byte list" where
  "c_str bs = takeWhile (\<lambda>c. c \<noteq> 0) bs"

text \<open>
  The four \<open>strsep\<close> calls on the payload \<open>custom\\nartist\\ntitle\\nalbum\<close>: the first
  value is discarded, the album is the rest.
\<close>

definition metadata_fields ::
  "encoder_op_packet \<Rightarrow> byte list option \<times> byte list option \<times> byte list option" where
  "metadata_fields packet =
     (let (_, s1) = strsep [10] (Some (c_str (data packet)));
          (artist, s2) = strsep [10] s1;
          (title, s3) = strsep [10] s2;
          (album, _) = strsep [] s3
      in (artist, title, album))"

text \<open>\<open>!strcmp(a, b)\<close>, where \<open>b\<close> may be \<open>NULL\<close>.\<close>

definition strcmp_eq :: "byte list \<Rightarrow> byte list option \<Rightarrow> fault + bool" where
  "strcmp_eq a b = (case b of None \<Rightarrow> Inl Null_pointer | Some b' \<Rightarrow> Inr (a = b'))"

text \<open>The short-circuit conjunction of the three comparisons with the last entry.\<close>

definition same_as_last ::
  "metadata_item \<Rightarrow> byte list option \<Rightarrow> byte list option \<Rightarrow> byte list option \<Rightarrow> fault + bool" where
  "same_as_last l a t b =
     (case strcmp_eq (artist l) a of
        Inl e \<Rightarrow> Inl e
      | Inr False \<Rightarrow> Inr False
      | Inr True \<Rightarrow>
          (case strcmp_eq (title l) t of
             Inl e \<Rightarrow> Inl e
           | Inr False \<Rightarrow> Inr False
           | Inr True \<Rightarrow> strcmp_eq (album l) b))"

text \<open>
  The part of \<open>recorder_append_metadata\<close> after the duplicate test: \<open>calloc\<close>, the three
  \<open>strdup\<close> calls (a \<open>NULL\<close> argument is undefined) and the linking of the new entry.
\<close>

definition link_metadata ::
  "bool \<Rightarrow> bool \<Rightarrow> byte list option \<Rightarrow> byte list option \<Rightarrow> byte list option \<Rightarrow> recorder
     \<Rightarrow> fault + recorder" where
  "link_metadata calloc_ok has_packet a t b self =
     (if \<not> calloc_ok then Inr self
      else
        (case (a, t, b) of
           (Some a', Some t', Some b') \<Rightarrow>
             (let m = \<lparr>artist = a', title = t', album = b',
                       time_offset = recording_length_ms self, time_offset_end = 0,
                       byte_offset = bytes_written self, byte_offset_end = 0\<rparr>
              in if mi self = [] then Inr (self\<lparr>mi := [m]\<rparr>)
                 else
                   (let l = (last (mi self))\<lparr>time_offset_end := time_offset m,
                                              byte_offset_end := byte_offset m\<rparr>
                    in Inr (self\<lparr>mi := butlast (mi self) @ [l] @ (if has_packet then [m] else [])\<rparr>)))
         | _ \<Rightarrow> Inl Null_pointer))"

definition recorder_append_metadata ::
  "bool \<Rightarrow> recorder \<Rightarrow> encoder_op_packet option \<Rightarrow> fault + recorder" where
  "recorder_append_metadata calloc_ok self packet =
     (case packet of
        None \<Rightarrow> link_metadata calloc_ok False (Some []) (Some []) (Some []) self
      | Some p \<Rightarrow>
          (let (a, t, b) = metadata_fields p in
           if mi self = [] then link_metadata calloc_ok True a t b self
           else
             (case same_as_last (last (mi self)) a t b of
                Inl e \<Rightarrow> Inl e
              | Inr True \<Rightarrow> Inr self
              | Inr False \<Rightarrow> link_metadata calloc_ok True a t b self)))"

subsection \<open>Segment metadata: \<open>recorder_append_metadata2\<close>\<close>

definition new_item2 :: "int \<Rightarrow> int \<Rightarrow> encoder_op_packet option \<Rightarrow> metadata_item2" where
  "new_item2 start off packet =
     \<lparr>start_offset_ms = start, finish_offset_ms = 0, byte_offset2 = off, size_bytes = 0,
      bit_rate2 = (case packet of None \<Rightarrow> 0 | Some p \<Rightarrow> bit_rate p),
      sample_rate2 = (case packet of None \<Rightarrow> 0 | Some p \<Rightarrow> sample_rate p)\<rparr>"

text \<open>The first half: allocation and linking of the new segment.\<close>

definition link_metadata2 :: "recorder \<Rightarrow> encoder_op_packet option \<Rightarrow> recorder" where
  "link_metadata2 self packet =
     (if mi2 self = [] then self\<lparr>mi2 := [new_item2 0 0 packet]\<rparr>
      else
        (let m = new_item2 (recording_length_ms self) (bytes_written self) packet;
             l = (last (mi2 self))\<lparr>finish_offset_ms := start_offset_ms m,
                                    size_bytes := byte_offset2 m - byte_offset2 (last (mi2 self))\<rparr>
         in self\<lparr>mi2 := butlast (mi2 self) @ [l] @ (if packet = None then [] else [m])\<rparr>))"

text \<open>The second half: the test that marks the recording as variable bit rate.\<close>

definition frame_length_altered :: "recorder \<Rightarrow> encoder_op_packet \<Rightarrow> bool" where
  "frame_length_altered self p \<longleftrightarrow>
     (bit_rate p \<noteq> oldbitrate self \<or> sample_rate p \<noteq> oldsamplerate self)
     \<and> flags p \<inter> {PF_MP3, PF_MP2, PF_AAC, PF_AACP2} \<noteq> {}"

definition note_rates :: "recorder \<Rightarrow> encoder_op_packet option \<Rightarrow> recorder" where
  "note_rates self packet =
     (case packet of
        None \<Rightarrow> self
      | Some p \<Rightarrow>
          (if frame_length_altered self p
           then self\<lparr>is_vbr := (if oldbitrate self \<noteq> 0 \<and> oldsamplerate self \<noteq> 0 then True
                                 else is_vbr self),
                     oldbitrate := bit_rate p, oldsamplerate := sample_rate p\<rparr>
           else self))"

definition recorder_append_metadata2 ::
  "bool \<Rightarrow> recorder \<Rightarrow> encoder_op_packet option \<Rightarrow> recorder" where
  "recorder_append_metadata2 calloc_ok self packet =
     (if \<not> calloc_ok then self else note_rates (link_metadata2 self packet) packet)"

subsection \<open>The recording thread, attached to an encoder\<close>

text \<open>
  What one pass of the loop of \<open>recorder_main\<close> meets outside the recorder: the packet
  \<open>encoder_client_get_packet\<close> returns (if any), whether the two \<open>calloc\<close> calls succeed,
  the serial \<open>encoder_client_set_flush\<close> returns (encoder.c is not part of the sources
  at hand, so its result is a parameter), the sample counts of the successive ring buffer
  reads, and whether the audio callback acknowledges \<open>JD_FLUSH\<close>.
\<close>

record recorder_env =
  next_packet :: "encoder_op_packet option"
  calloc_ok :: bool
  calloc2_ok :: bool
  set_flush :: int
  rb_reads :: "nat list"
  jack_acknowledges :: bool

definition container_flags :: "packet_flag set" where
  "container_flags = {PF_WEBM, PF_OGG, PF_MP3, PF_MP2, PF_AAC, PF_AACP2}"

text \<open>The \<open>fwrite\<close> of the payload and the bookkeeping after it.\<close>

definition write_payload :: "recorder \<Rightarrow> encoder_op_packet \<Rightarrow> fault + recorder" where
  "write_payload self p =
     (case fp self of
        None \<Rightarrow> Inl Null_pointer
      | Some f \<Rightarrow>
          (let (n, f') = fwrite_bytes (take (data_size p) (data p)) f in
           if data_size p \<noteq> n
           then Inr (self\<lparr>fp := Some f', record_mode := RM_STOPPING\<rparr>)
           else Inr (self\<lparr>fp := Some f',
                          recording_length_s := c_trunc (accumulated_time self + timestamp p),
                          recording_length_ms :=
                            c_trunc ((accumulated_time self + timestamp p) * 1000),
                          bytes_written := ftell f'\<rparr>)))"

text \<open>The end of a segment: the time is accumulated and a pending pause is entered.\<close>

definition final_packet :: "recorder \<Rightarrow> encoder_op_packet \<Rightarrow> recorder" where
  "final_packet self p =
     (let s = self\<lparr>accumulated_time := accumulated_time self + timestamp p\<rparr>
      in if pause_pending s \<and> final_serial s \<le> serial p
         then s\<lparr>record_mode := RM_PAUSED, pause_pending := False\<rparr>
         else s)"

text \<open>The body of \<open>if (packet->header.serial >= self->initial_serial)\<close>.\<close>

definition fenced_part :: "bool \<Rightarrow> recorder \<Rightarrow> encoder_op_packet \<Rightarrow> fault + recorder" where
  "fenced_part c2 self p =
     (let s1 = (if PF_INITIAL \<in> flags p \<and> id3_mode self
                then recorder_append_metadata2 c2 self (Some p) else self)
      in case (if flags p \<inter> container_flags \<noteq> {} then write_payload s1 p else Inr s1) of
           Inl e \<Rightarrow> Inl e
         | Inr s2 \<Rightarrow> Inr (if PF_FINAL \<in> flags p then final_packet s2 p else s2))"

text \<open>The body of \<open>if ((packet = encoder_client_get_packet(self->encoder_op)))\<close>.\<close>

definition recorder_packet ::
  "bool \<Rightarrow> bool \<Rightarrow> recorder \<Rightarrow> encoder_op_packet \<Rightarrow> fault + recorder" where
  "recorder_packet c1 c2 self p =
     (case (if initial_serial self \<le> serial p then fenced_part c2 self p else Inr self) of
        Inl e \<Rightarrow> Inl e
      | Inr s \<Rightarrow>
          (if PF_METADATA \<in> flags p then recorder_append_metadata c1 s (Some p) else Inr s))"

text \<open>The two request tests that end the attached branch of \<open>RM_RECORDING\<close>.\<close>

definition recording_requests :: "int \<Rightarrow> recorder \<Rightarrow> recorder" where
  "recording_requests flush_serial self =
     (let s1 = (if stop_request self
                then self\<lparr>stop_pending := True, pause_request := True, stop_request := False\<rparr>
                else self)
      in if pause_request s1
         then s1\<lparr>pause_pending := True, final_serial := flush_serial, pause_request := False\<rparr>
         else s1)"

definition recording_attached :: "recorder_env \<Rightarrow> recorder \<Rightarrow> fault + recorder" where
  "recording_attached env self =
     (case (case next_packet env of
              None \<Rightarrow> Inr self
            | Some p \<Rightarrow> recorder_packet (calloc_ok env) (calloc2_ok env) self p) of
        Inl e \<Rightarrow> Inl e
      | Inr s \<Rightarrow> Inr (recording_requests (set_flush env) s))"

subsection \<open>The recording thread, encoding FLAC itself\<close>

text \<open>
  The ring buffer loop: every read adds its samples; the loop is left after the first
  read when a stop or a pause is requested.  The FLAC data goes to the file through
  the sound file library and is not part of the model.
\<close>

definition samples_read :: "recorder_env \<Rightarrow> recorder \<Rightarrow> int" where
  "samples_read env self =
     int (sum_list (if stop_request self \<or> pause_request self then take 1 (rb_reads env)
                    else rb_reads env))"

definition cue_track :: "recorder \<Rightarrow> cue_line list" where
  "cue_track self =
     [Cue_track (artist_title_writes self + 1), Cue_title (rec_title self),
      Cue_performer (rec_artist self), Cue_rem_album (rec_album self),
      Cue_index (c_div (recording_length_s self) 60) (c_mod (recording_length_s self) 60)
                (c_div (c_mod (recording_length_ms self) 1000 * 75) 1000)]"

definition recording_lossless :: "recorder_env \<Rightarrow> recorder \<Rightarrow> fault + recorder" where
  "recording_lossless env self =
     (if \<not> input_rb self then Inl Null_pointer
      else if sfinfo_samplerate self = 0 then Inl Division_by_zero
      else
        (let n = sf_samples self + samples_read env self;
             s1 = self\<lparr>sf_samples := n,
                       recording_length_s := c_div n (sfinfo_samplerate self),
                       recording_length_ms := c_div (n * 1000) (sfinfo_samplerate self)\<rparr>;
             s2 = (if stop_request s1
                   then s1\<lparr>stop_request := False, record_mode := RM_STOPPING\<rparr> else s1);
             s3 = (if pause_request s2
                   then s2\<lparr>pause_request := False, record_mode := RM_PAUSED\<rparr> else s2)
         in if new_artist_title s3
            then (case fpcue s3 of
                    None \<Rightarrow> Inl Null_pointer
                  | Some ls \<Rightarrow>
                      Inr (s3\<lparr>artist_title_writes := artist_title_writes s3 + 1,
                              new_artist_title := False, fpcue := Some (ls @ cue_track s3)\<rparr>))
            else Inr s3))"

subsection \<open>The paused thread\<close>

definition paused :: "recorder_env \<Rightarrow> recorder \<Rightarrow> fault + recorder" where
  "paused env self =
     (if stop_request self \<or> stop_pending self then Inr (self\<lparr>record_mode := RM_STOPPING\<rparr>)
      else if \<not> input_rb self then Inl Null_pointer
      else if unpause_request self
      then Inr (self\<lparr>unpause_request := False,
                     initial_serial :=
                       (if initial_serial self \<noteq> - 1 then set_flush env + 1
                        else initial_serial self),
                     record_mode := RM_RECORDING\<rparr>)
      else Inr self)"

subsection \<open>The control calls \<open>recorder_stop\<close> and \<open>recorder_start\<close>\<close>

text \<open>
  \<open>recorder_stop\<close> polls every 10 ms until the recording thread has reached
  \<open>RM_STOPPED\<close>.  What the thread does between two polls is the parameter \<open>thread\<close>; the
  loop is given a number of polls, and \<open>None\<close> means that it did not end within them.
\<close>

fun await_stopped :: "(recorder \<Rightarrow> recorder) \<Rightarrow> nat \<Rightarrow> recorder \<Rightarrow> recorder option" where
  "await_stopped thread 0 self = (if record_mode self = RM_STOPPED then Some self else None)"
| "await_stopped thread (Suc n) self =
     (if record_mode self = RM_STOPPED then Some self
      else await_stopped thread n (thread self))"

definition recorder_stop ::
  "(recorder \<Rightarrow> recorder) \<Rightarrow> nat \<Rightarrow> recorder \<Rightarrow> (result \<times> recorder) option" where
  "recorder_stop thread polls self =
     (if record_mode self = RM_STOPPED then Some (FAILED, self)
      else map_option (Pair SUCCEEDED)
             (await_stopped thread polls (self\<lparr>stop_request := True\<rparr>)))"


datatype encoder_codec =
  ENCODER_CODEC_UNHANDLED | ENCODER_CODEC_MP3 | ENCODER_CODEC_VORBIS | ENCODER_CODEC_FLAC
  | ENCODER_CODEC_SPEEX | ENCODER_CODEC_OPUS | ENCODER_CODEC_MP2 | ENCODER_CODEC_AAC
  | ENCODER_CODEC_AACPLUSV2







subsection \<open>Finishing an MP3 file: the ID3 tag and the Xing tag\<close>

text \<open>
  The frames \<open>recorder_write_id3_tag\<close> builds.  id3.c, which turns them into bytes, is not
  part of the sources at hand: \<open>id3_compile\<close> is a parameter.
\<close>

datatype id3_frame =
  Numeric_string_frame string int
  | Text_frame string "byte list"
  | Chap_frame int int int int "id3_frame list"

definition chap_frame :: "metadata_item \<Rightarrow> id3_frame" where
  "chap_frame m =
     Chap_frame (time_offset m) (time_offset_end m) (byte_offset m) (byte_offset_end m)
       ([Text_frame ''TIT2'' (title m)]
        @ (if album m \<noteq> [] then [Text_frame ''TALB'' (album m)] else [])
        @ (if artist m \<noteq> [] then [Text_frame ''TPE1'' (artist m)] else []))"

definition id3_frames :: "recorder \<Rightarrow> id3_frame list" where
  "id3_frames self =
     Numeric_string_frame ''TLEN'' (recording_length_ms self) # map chap_frame (mi self)"

definition recorder_write_id3_tag ::
  "(id3_frame list \<Rightarrow> byte list) \<Rightarrow> recorder \<Rightarrow> wstream \<Rightarrow> result \<times> wstream" where
  "recorder_write_id3_tag id3_compile self f =
     (let tag_data = id3_compile (id3_frames self);
          (n, f') = fwrite_bytes tag_data f
      in (if n \<noteq> length tag_data then FAILED else SUCCEEDED, f'))"

text \<open>The seek table: the \<open>while\<close> loop that advances \<open>mi2\<close> to the segment of \<open>look_ms\<close>.\<close>

fun skip_segments :: "rat \<Rightarrow> metadata_item2 list \<Rightarrow> metadata_item2 list" where
  "skip_segments look [] = []"
| "skip_segments look (m # ms) =
     (if of_int (finish_offset_ms m) < look then skip_segments look ms else m # ms)"

text \<open>
  The conversion of a \<open>double\<close> to \<open>unsigned char\<close> is defined when the truncated value
  is one of 0 .. 255.
\<close>

definition to_uchar :: "rat \<Rightarrow> fault + byte" where
  "to_uchar x =
     (if 0 \<le> c_trunc x \<and> c_trunc x < 256 then Inr (word_of_int (c_trunc x))
      else Inl Conversion_out_of_range)"

text \<open>
  One entry of the table.  A division by 0.0 gives an infinity or a NaN, which no
  later operation of the expression makes finite again, so the conversion is undefined.
\<close>

definition seek_entry :: "recorder \<Rightarrow> rat \<Rightarrow> metadata_item2 \<Rightarrow> fault + byte" where
  "seek_entry self look_ms m =
     (if finish_offset_ms m - start_offset_ms m = 0 \<or> bytes_written self = 0
      then Inl Conversion_out_of_range
      else
        (let seg_prop = (look_ms - of_int (start_offset_ms m))
                        / of_int (finish_offset_ms m - start_offset_ms m)
         in to_uchar ((seg_prop * of_int (size_bytes m) + of_int (byte_offset2 m))
                      / of_int (bytes_written self) * 255)))"

text \<open>
  The \<open>for\<close> loop over \<open>seek = 0.0, 0.01, ...\<close> while \<open>seek < 1.0\<close>: \<open>k\<close> entries are
  still to be made and \<open>i\<close> have been made, so \<open>seek\<close> is \<open>i / 100\<close> and
  \<open>look_ms = seek * self->recording_length_ms\<close> is \<open>look_ms_at self i\<close>.  The result
  \<open>None\<close> is the \<open>return FAILED\<close> of the loop (the list ended).
\<close>

definition look_ms_at :: "recorder \<Rightarrow> nat \<Rightarrow> rat" where
  "look_ms_at self i = of_nat i / 100 * of_int (recording_length_ms self)"

fun seek_table_from ::
  "recorder \<Rightarrow> nat \<Rightarrow> nat \<Rightarrow> metadata_item2 list \<Rightarrow> fault + byte list option" where
  "seek_table_from self 0 i segs = Inr (Some [])"
| "seek_table_from self (Suc k) i segs =
     (let look_ms = look_ms_at self i
      in case skip_segments look_ms segs of
           [] \<Rightarrow> Inr None
         | m # ms \<Rightarrow>
             (case seek_entry self look_ms m of
                Inl e \<Rightarrow> Inl e
              | Inr b \<Rightarrow>
                  (case seek_table_from self k (Suc i) (m # ms) of
                     Inl e \<Rightarrow> Inl e
                   | Inr None \<Rightarrow> Inr None
                   | Inr (Some t) \<Rightarrow> Inr (Some (b # t)))))"

definition seek_table :: "recorder \<Rightarrow> fault + byte list option" where
  "seek_table self = seek_table_from self 100 0 (mi2 self)"

text \<open>The \<open>if (self->is_vbr)\<close> block that writes the table.\<close>

definition write_seek_table :: "recorder \<Rightarrow> wstream \<Rightarrow> fault + bool \<times> wstream" where
  "write_seek_table self f =
     (case seek_table self of
        Inl e \<Rightarrow> Inl e
      | Inr None \<Rightarrow> Inr (False, f)
      | Inr (Some t) \<Rightarrow>
          (let (ok, f') = fwrite_item t f
           in if \<not> ok then Inr (False, f')
              else Inr (True, if last t = 255 then fputc 0 f' else f')))"

text \<open>The loop that writes \<open>xing_offset\<close> zero bytes and tests \<open>ferror\<close> after each.\<close>

fun fputc_zeros :: "nat \<Rightarrow> wstream \<Rightarrow> bool \<times> wstream" where
  "fputc_zeros 0 f = (True, f)"
| "fputc_zeros (Suc n) f =
     (let f' = fputc 0 f in if ferror_flag f' then (False, f') else fputc_zeros n f')"

definition xing_marker :: "byte list" where
  "xing_marker = bytes_of ''Xing'' @ [0, 0, 0, 7]"

definition info_marker :: "byte list" where
  "info_marker = bytes_of ''Info'' @ [0, 0, 0, 3]"

text \<open>The four \<open>fputc\<close> arguments \<open>(n >> 24) & 0xFF\<close>, ..., \<open>n & 0xFF\<close>.\<close>

definition be32 :: "int \<Rightarrow> byte list" where
  "be32 n = [word_of_int (n div 2 ^ 24), word_of_int (n div 2 ^ 16), word_of_int (n div 2 ^ 8),
             word_of_int n]"

definition padding_of :: "byte list \<Rightarrow> int" where
  "padding_of h = (if (h ! 2) AND 0x2 \<noteq> 0 then 1 else 0)"

definition mpeg1_f :: "byte list \<Rightarrow> bool" where
  "mpeg1_f h \<longleftrightarrow> (h ! 1) AND 0x18 = 0x18"

definition mono_f :: "byte list \<Rightarrow> bool" where
  "mono_f h \<longleftrightarrow> (h ! 3) AND 0xC0 = 0xC0"

definition samples_per_frame :: "byte list \<Rightarrow> int" where
  "samples_per_frame h = (if mpeg1_f h then 1152 else 576)"

text \<open>\<open>side_info_table[mpeg1_f][mono_f]\<close> with the table \<open>{ { 17, 9 }, { 32, 17 } }\<close>.\<close>

definition xing_offset :: "byte list \<Rightarrow> nat" where
  "xing_offset h =
     (if mpeg1_f h then (if mono_f h then 17 else 32) else (if mono_f h then 9 else 17))"

definition framelength :: "recorder \<Rightarrow> metadata_item2 \<Rightarrow> int" where
  "framelength self m1 =
     c_div (c_div (samples_per_frame (first_mp3_header self)) 8 * int (bit_rate2 m1) * 1000)
           (int (sample_rate2 m1))
     + padding_of (first_mp3_header self)"

definition total_frames :: "recorder \<Rightarrow> metadata_item2 \<Rightarrow> int" where
  "total_frames self m1 =
     c_trunc (of_nat (sample_rate2 m1) * of_int (recording_length_ms self)
              / (of_int (samples_per_frame (first_mp3_header self)) * 1000) + 1 / 2)"

definition recorder_write_xing_tag :: "recorder \<Rightarrow> wstream \<Rightarrow> fault + result \<times> wstream" where
  "recorder_write_xing_tag self f0 =
     (if \<not> include_xing_tag self then Inr (SUCCEEDED, f0)
      else
        (case mi2 self of
           [] \<Rightarrow> Inr (SUCCEEDED, f0)
         | m1 # _ \<Rightarrow>
             (if sample_rate2 m1 = 0 then Inl Division_by_zero
              else
                (let initial_offset = ftell f0;
                     (ok1, f1) = fwrite_item (first_mp3_header self) f0
                 in if \<not> ok1 then Inr (FAILED, f1)
                    else
                      (let (ok2, f2) = fputc_zeros (xing_offset (first_mp3_header self)) f1
                       in if \<not> ok2 then Inr (FAILED, f2)
                          else
                            (let (ok3, f3) =
                                   fwrite_item (if is_vbr self then xing_marker else info_marker) f2
                             in if \<not> ok3 then Inr (FAILED, f3)
                                else
                                  (let f4 = fold fputc (be32 (total_frames self m1)
                                                        @ be32 (bytes_written self)) f3
                                   in case (if is_vbr self then write_seek_table self f4
                                            else Inr (True, f4)) of
                                        Inl e \<Rightarrow> Inl e
                                      | Inr (ok5, f5) \<Rightarrow>
                                          (if \<not> ok5 then Inr (FAILED, f5)
                                           else
                                             (let f6 = (fputc 0 ^^ nat (framelength self m1
                                                          - ftell f5 + initial_offset)) f5
                                              in if ferror_flag f6 then Inr (FAILED, f6)
                                                 else Inr (SUCCEEDED, f6))))))))))"

subsection \<open>Rewriting the file: \<open>recorder_apply_mp3_tags\<close>\<close>

text \<open>
  The file system: the regular files and the cue sheets by path name, and the lines
  \<open>recorder_apply_mp3_tags\<close> prints on the error stream.
\<close>

record world =
  files :: "string \<rightharpoonup> byte list"
  cue_files :: "string \<rightharpoonup> cue_line list"
  stderr_log :: "string list"

definition report :: "string \<Rightarrow> world \<Rightarrow> world" where
  "report msg w = w\<lparr>stderr_log := stderr_log w @ [msg]\<rparr>"

definition unlink :: "string \<Rightarrow> world \<Rightarrow> world" where
  "unlink name w = w\<lparr>files := (files w)(name := None)\<rparr>"

definition store :: "string \<Rightarrow> byte list \<Rightarrow> world \<Rightarrow> world" where
  "store name bs w = w\<lparr>files := (files w)(name \<mapsto> bs)\<rparr>"

text \<open>What the rewriting meets outside the recorder.\<close>

record tag_io =
  tmpname_malloc_ok :: bool
  fopen_tmp_ok :: bool
  tmp_space :: nat
  fopen_mp3_ok :: bool
  rename_ok :: bool
  id3_compile :: "id3_frame list \<Rightarrow> byte list"

text \<open>The copy loop: blocks of up to 2048 bytes, each written as one item.\<close>

function copy_blocks :: "byte list \<Rightarrow> wstream \<Rightarrow> bool \<times> wstream" where
  "copy_blocks src f =
     (if src = [] then (True, f)
      else (case fwrite_item (take 2048 src) f of
              (ok, f') \<Rightarrow> if \<not> ok then (False, f') else copy_blocks (drop 2048 src) f'))"
  by pat_completeness auto
termination
  by (relation "measure (\<lambda>(src, f). length src)") auto

text \<open>\<open>recorder_write_id3_tag(self, fpw) && recorder_write_xing_tag(self, fpw)\<close>.\<close>

definition write_tags :: "tag_io \<Rightarrow> recorder \<Rightarrow> wstream \<Rightarrow> fault + bool \<times> wstream" where
  "write_tags io self f =
     (case recorder_write_id3_tag (id3_compile io) self f of
        (FAILED, f1) \<Rightarrow> Inr (False, f1)
      | (SUCCEEDED, f1) \<Rightarrow>
          (case recorder_write_xing_tag self f1 of
             Inl e \<Rightarrow> Inl e
           | Inr (r, f2) \<Rightarrow> Inr (r = SUCCEEDED, f2)))"

text \<open>A failure path after both files are open: they are closed and the copy is removed.\<close>

definition abandon :: "string \<Rightarrow> string \<Rightarrow> wstream \<Rightarrow> world \<Rightarrow> world" where
  "abandon msg tmpname f w = report msg (unlink tmpname (store tmpname (content f) w))"

text \<open>The end of the function: both files are closed and the copy is renamed.\<close>

definition rename_tagged :: "tag_io \<Rightarrow> string \<Rightarrow> string \<Rightarrow> wstream \<Rightarrow> world \<Rightarrow> world" where
  "rename_tagged io path tmpname f w =
     (let w2 = store tmpname (content f) w
      in if \<not> rename_ok io
         then report ''recorder_apply_mp3_tags: failed to rename the temporary file'' w2
         else report ''recorder_apply_mp3_tags: successfully tagged the mp3 file''
                (unlink tmpname (store path (content f) w2)))"

definition tag_and_copy ::
  "tag_io \<Rightarrow> string \<Rightarrow> string \<Rightarrow> byte list \<Rightarrow> recorder \<Rightarrow> world \<Rightarrow> fault + world" where
  "tag_and_copy io path tmpname src self w =
     (case write_tags io self (fopen_w (tmp_space io)) of
        Inl e \<Rightarrow> Inl e
      | Inr (tagged, f1) \<Rightarrow>
          (if \<not> tagged
           then Inr (abandon ''recorder_apply_mp3_tags: failed to tag the mp3 file'' tmpname f1 w)
           else
             (case copy_blocks src f1 of
                (copied, f2) \<Rightarrow>
                  (if \<not> copied
                   then Inr (abandon ''recorder_apply_mp3_tags: error copying the mp3 file''
                               tmpname f2 w)
                   else Inr (rename_tagged io path tmpname f2 w)))))"

text \<open>
  \<open>fread(self->first_mp3_header, 4, 1, fpr)\<close>: with fewer than four bytes in the file
  it fails, having stored the bytes there are.
\<close>

definition fread_header :: "byte list \<Rightarrow> recorder \<Rightarrow> bool \<times> recorder" where
  "fread_header src self =
     (if length src < 4
      then (False, self\<lparr>first_mp3_header := src @ drop (length src) (first_mp3_header self)\<rparr>)
      else (True, self\<lparr>first_mp3_header := take 4 src\<rparr>))"

definition recorder_apply_mp3_tags ::
  "tag_io \<Rightarrow> recorder \<Rightarrow> world \<Rightarrow> fault + recorder \<times> world" where
  "recorder_apply_mp3_tags io self w =
     (case pathname self of
        None \<Rightarrow> Inl Null_pointer
      | Some path \<Rightarrow>
          (if \<not> tmpname_malloc_ok io
           then Inr (self, report ''recorder_apply_mp3_tags: malloc failure'' w)
           else if \<not> fopen_tmp_ok io
           then Inr (self, report ''recorder_apply_mp3_tags: failed to open temporary file'' w)
           else
             (let tmpname = path @ ''.tmp''; w1 = store tmpname [] w
              in case (if fopen_mp3_ok io then files w1 path else None) of
                   None \<Rightarrow>
                     Inr (self, report ''recorder_apply_mp3_tags: failed to open the mp3 file''
                                  (unlink tmpname w1))
                 | Some src \<Rightarrow>
                     (case fread_header src self of
                        (False, s1) \<Rightarrow>
                          Inr (s1, report ''failed to obtain the first four bytes of the recording''
                                     (unlink tmpname w1))
                      | (True, s1) \<Rightarrow>
                          (case tag_and_copy io path tmpname src s1 w1 of
                             Inl e \<Rightarrow> Inl e
                           | Inr w2 \<Rightarrow> Inr (s1, w2))))))"

subsection \<open>The cue sheet of an MP3 recording\<close>

text \<open>\<open>strrchr(pathname, '/') + 1\<close>: without a slash the pointer is invalid.\<close>

definition after_last_slash :: "string \<Rightarrow> fault + string" where
  "after_last_slash path =
     (if CHR ''/'' \<in> set path then Inr (basename path) else Inl Null_pointer)"

definition mp3_cue_track :: "nat \<times> metadata_item \<Rightarrow> cue_line list" where
  "mp3_cue_track im =
     (case im of
        (i, m) \<Rightarrow>
          [Cue_track (int i)]
          @ (if title m \<noteq> [] then [Cue_title (title m)] else [])
          @ (if artist m \<noteq> [] then [Cue_performer (artist m)] else [])
          @ (if album m \<noteq> [] then [Cue_rem_album (album m)] else [])
          @ [if 1 < i
             then Cue_index (c_div (time_offset m) 60000) (c_mod (c_div (time_offset m) 1000) 60)
                    (c_div (c_mod (time_offset m) 1000 * 75) 1000)
             else Cue_index 0 0 0])"

definition recorder_create_mp3_cuesheet ::
  "bool \<Rightarrow> recorder \<Rightarrow> world \<Rightarrow> fault + result \<times> world" where
  "recorder_create_mp3_cuesheet cue_ok self w =
     (case (cuepathname self, rec_timestamp self, pathname self) of
        (Some cue, Some ts, Some path) \<Rightarrow>
          (if \<not> cue_ok then Inr (FAILED, w)
           else
             (case after_last_slash path of
                Inl e \<Rightarrow> Inl e
              | Inr name \<Rightarrow>
                  Inr (SUCCEEDED,
                       w\<lparr>cue_files := (cue_files w)(cue \<mapsto>
                            [Cue_title ts, Cue_performer (bytes_of ''Recorded with IDJC''),
                             Cue_file name ''MP3'']
                            @ concat (map mp3_cue_track (enumerate 1 (mi self))))\<rparr>)))
      | _ \<Rightarrow> Inl Null_pointer)"

subsection \<open>The stopping thread and the loop of \<open>recorder_main\<close>\<close>

text \<open>
  The assignments that end \<open>case RM_STOPPING\<close>.  The bytes written through \<open>fp\<close> are taken
  to be in the file when the tags are applied: the buffering of stdio is not modelled.
\<close>

definition reset_session :: "recorder \<Rightarrow> recorder" where
  "reset_session self =
     self\<lparr>first_mp3_header := [0, 0, 0, 0], oldbitrate := 0, oldsamplerate := 0,
          id3_mode := False, include_xing_tag := False, is_vbr := False,
          recording_length_s := 0, recording_length_ms := 0, accumulated_time := 0,
          bytes_written := 0, fp := None, pathname := None, cuepathname := None,
          encoder_op := None, stop_request := False, stop_pending := False,
          pause_request := False, pause_pending := False, record_mode := RM_STOPPED\<rparr>"

text \<open>The \<open>if (self->id3_mode)\<close> block of the attached branch.\<close>

definition finish_id3 ::
  "recorder_env \<Rightarrow> tag_io \<Rightarrow> bool \<Rightarrow> recorder \<Rightarrow> world \<Rightarrow> fault + recorder \<times> world" where
  "finish_id3 env io cue_ok self w =
     (case recorder_append_metadata (calloc_ok env) self None of
        Inl e \<Rightarrow> Inl e
      | Inr s1 \<Rightarrow>
          (case recorder_apply_mp3_tags io (recorder_append_metadata2 (calloc2_ok env) s1 None) w of
             Inl e \<Rightarrow> Inl e
           | Inr (s2, w2) \<Rightarrow>
               (case recorder_create_mp3_cuesheet cue_ok s2 w2 of
                  Inl e \<Rightarrow> Inl e
                | Inr (_, w3) \<Rightarrow> Inr (s2\<lparr>mi := [], mi2 := []\<rparr>, w3))))"

definition stopping ::
  "recorder_env \<Rightarrow> tag_io \<Rightarrow> bool \<Rightarrow> recorder \<Rightarrow> world \<Rightarrow> fault + recorder \<times> world" where
  "stopping env io cue_ok self w =
     (case (fp self, pathname self) of
        (Some f, Some path) \<Rightarrow>
          (if initial_serial self = - 1
           then (case (fpcue self, cuepathname self) of
                   (Some ls, Some cue) \<Rightarrow>
                     (if \<not> jack_acknowledges env then Inl Blocks_forever
                      else Inr (reset_session
                                  (self\<lparr>sf_open := False, jack_dataflow_control := JD_OFF,
                                        input_rb := False, sf_samples := 0\<rparr>),
                                w\<lparr>cue_files := (cue_files w)(cue \<mapsto> ls)\<rparr>))
                 | _ \<Rightarrow> Inl Null_pointer)
           else if id3_mode self
           then (case finish_id3 env io cue_ok self (store path (content f) w) of
                   Inl e \<Rightarrow> Inl e
                 | Inr (s, w') \<Rightarrow> Inr (reset_session s, w'))
           else Inr (reset_session self, store path (content f) w))
      | _ \<Rightarrow> Inl Null_pointer)"

text \<open>
  One pass of the \<open>while\<close> loop of \<open>recorder_main\<close>.  In \<open>RM_STOPPED\<close> the thread waits
  on its condition variable and changes nothing.
\<close>

definition recorder_main ::
  "recorder_env \<Rightarrow> tag_io \<Rightarrow> bool \<Rightarrow> recorder \<times> world \<Rightarrow> fault + recorder \<times> world" where
  "recorder_main env io cue_ok sw =
     (case sw of
        (self, w) \<Rightarrow>
          (case record_mode self of
             RM_STOPPED \<Rightarrow> Inr (self, w)
           | RM_RECORDING \<Rightarrow>
               (case (if initial_serial self = - 1 then recording_lossless env self
                      else recording_attached env self) of
                  Inl e \<Rightarrow> Inl e
                | Inr s \<Rightarrow> Inr (s, w))
           | RM_PAUSED \<Rightarrow> (case paused env self of Inl e \<Rightarrow> Inl e | Inr s \<Rightarrow> Inr (s, w))
           | RM_STOPPING \<Rightarrow> stopping env io cue_ok self w))"

subsection \<open>Runs of the recording thread and finished segment lists\<close>

text \<open>Successive passes of the loop of \<open>recorder_main\<close>, one per environment.\<close>

fun recorder_run ::
  "recorder_env list \<Rightarrow> tag_io \<Rightarrow> bool \<Rightarrow> recorder \<times> world \<Rightarrow> fault + recorder \<times> world" where
  "recorder_run [] io cue_ok sw = Inr sw"
| "recorder_run (env # envs) io cue_ok sw =
     (case recorder_main env io cue_ok sw of
        Inl e \<Rightarrow> Inl e
      | Inr sw' \<Rightarrow> recorder_run envs io cue_ok sw')"




text \<open>
  The words of the specification on variable bit rate: two consecutive audio-bearing
  packets carry differing pairs of bit rate and sample rate.  A packet bears audio
  when the recorder writes its payload, that is when it has a container flag.
\<close>

definition audio_bearing :: "encoder_op_packet \<Rightarrow> bool" where
  "audio_bearing p \<longleftrightarrow> flags p \<inter> container_flags \<noteq> {}"

fun rates_differ :: "encoder_op_packet list \<Rightarrow> bool" where
  "rates_differ (p # q # ps) =
     ((bit_rate p, sample_rate p) \<noteq> (bit_rate q, sample_rate q) \<or> rates_differ (q # ps))"
| "rates_differ ps = False"

definition consecutive_rates_differ :: "encoder_op_packet list \<Rightarrow> bool" where
  "consecutive_rates_differ ps = rates_differ (filter audio_bearing ps)"



section \<open>Example inputs\<close>

text \<open>
  A metadata packet with the payload \<open>c\nA\nT\nB\<close> and its NUL: custom text \<open>c\<close>,
  artist \<open>A\<close>, title \<open>T\<close>, album \<open>B\<close>.  Its serial is 4.
\<close>

definition song_packet :: encoder_op_packet where
  "song_packet =
     \<lparr>bit_rate = 128, sample_rate = 44100, n_channels = 2, flags = {PF_METADATA},
      serial = 4, timestamp = 0, data_size = 8, data = [99, 10, 65, 10, 84, 10, 66, 0]\<rparr>"

text \<open>The chapter entry the recorder makes of it at the start of a recording.\<close>

definition song_entry :: metadata_item where
  "song_entry =
     \<lparr>artist = [65], title = [84], album = [66], time_offset = 0, time_offset_end = 0,
      byte_offset = 0, byte_offset_end = 0\<rparr>"



definition mp3_recording :: recorder where
  "mp3_recording =
     (recorder_init 0)
       \<lparr>record_mode := RM_RECORDING, encoder_op := Some 0, initial_serial := 5,
        id3_mode := True, include_xing_tag := True,
        fp := Some (fopen_w 1000000), pathname := Some ''/r/a.mp3'',
        cuepathname := Some ''/r/a.cue'', rec_timestamp := Some []\<rparr>"




definition plain_tag_io :: tag_io where
  "plain_tag_io =
     \<lparr>tmpname_malloc_ok = True, fopen_tmp_ok = True, tmp_space = 1000000,
      fopen_mp3_ok = True, rename_ok = True, id3_compile = (\<lambda>frames. [73, 68, 51])\<rparr>"


text \<open>A disk that holds the recorded file \<open>/r/a.mp3\<close> of six bytes.\<close>

definition recorded_disk :: world where
  "recorded_disk =
     \<lparr>files = [''/r/a.mp3'' \<mapsto> [255, 251, 144, 0, 7, 7]], cue_files = Map.empty,
      stderr_log = []\<rparr>"

text \<open>
  A variable bit rate session: a segment of serial 5 at 128 kb/s (a first frame, four
  more bytes after one second, the end), then a segment of serial 6 at 192 kb/s (a
  first frame, eight more bytes after two seconds, the end).
\<close>

definition mp3_packet ::
  "packet_flag set \<Rightarrow> nat \<Rightarrow> int \<Rightarrow> rat \<Rightarrow> byte list \<Rightarrow> encoder_op_packet" where
  "mp3_packet fl br sn ts bs =
     \<lparr>bit_rate = br, sample_rate = 44100, n_channels = 2, flags = insert PF_MP3 fl,
      serial = sn, timestamp = ts, data_size = length bs, data = bs\<rparr>"

definition vbr_stream :: "encoder_op_packet list" where
  "vbr_stream =
     [mp3_packet {PF_INITIAL} 128 5 0 [255, 251, 144, 0],
      mp3_packet {} 128 5 1 [1, 1, 1, 1],
      mp3_packet {PF_FINAL} 128 5 1 [],
      mp3_packet {PF_INITIAL} 192 6 0 [255, 251, 176, 0],
      mp3_packet {} 192 6 2 [2, 2, 2, 2, 2, 2, 2, 2]]"

text \<open>
  The end of the session, once \<open>recorder_stop\<close> has set the stop request: a pass that
  takes the request and asks the encoder for a flush (which answers 6), a pass that gets
  the packet ending serial 6, a pass in pause mode, and the stopping pass.
\<close>

definition quiet_env :: recorder_env where
  "quiet_env =
     \<lparr>next_packet = None, calloc_ok = True, calloc2_ok = True, set_flush = 6, rb_reads = [],
      jack_acknowledges = True\<rparr>"

definition closing_envs :: "recorder_env list" where
  "closing_envs =
     [quiet_env, quiet_env\<lparr>next_packet := Some (mp3_packet {PF_FINAL} 192 6 2 [])\<rparr>,
      quiet_env, quiet_env]"



text \<open>
  A segment whose second packet carries another bit rate than its first, the recorder
  after a first segment at 128 kb/s, the packet that opens a segment at 192 kb/s, and
  a finished recording of one segment at 128 kb/s.
\<close>

definition uneven_segment :: "encoder_op_packet list" where
  "uneven_segment =
     [mp3_packet {PF_INITIAL} 128 5 0 [255, 251, 144, 0], mp3_packet {} 192 5 1 [1, 1, 1, 1]]"

definition after_first_segment :: recorder where
  "after_first_segment =
     mp3_recording
       \<lparr>oldbitrate := 128, oldsamplerate := 44100, recording_length_s := 1,
        recording_length_ms := 1000, accumulated_time := 1, bytes_written := 8,
        fp := Some \<lparr>content = [255, 251, 144, 0, 1, 1, 1, 1], ferror_flag = False,
                     budget = 999992\<rparr>,
        mi2 := [\<lparr>start_offset_ms = 0, finish_offset_ms = 0, byte_offset2 = 0,
                 size_bytes = 0, bit_rate2 = 128, sample_rate2 = 44100\<rparr>]\<rparr>"

definition second_opening :: encoder_op_packet where
  "second_opening = mp3_packet {PF_INITIAL} 192 6 0 [255, 251, 176, 0]"

definition constant_recording :: recorder where
  "constant_recording =
     mp3_recording
       \<lparr>oldbitrate := 128, oldsamplerate := 44100,
        recording_length_s := 3, recording_length_ms := 3000, accumulated_time := 3,
        bytes_written := 20,
        mi2 := [\<lparr>start_offset_ms = 0, finish_offset_ms = 3000, byte_offset2 = 0,
                 size_bytes = 20, bit_rate2 = 128, sample_rate2 = 44100\<rparr>],
        first_mp3_header := [255, 251, 144, 0]\<rparr>"
section \<open>Properties of the recorder\<close>

subsection \<open>What the steps leave alone\<close>




lemma recorder_packet_below_watermark:
  "serial p < initial_serial self \<Longrightarrow>
   recorder_packet c1 c2 self p =
     (if PF_METADATA \<in> flags p then recorder_append_metadata c1 self (Some p) else Inr self)"
  by (simp add: recorder_packet_def)

lemma write_payload_mi:
  "write_payload self p = Inr s \<Longrightarrow> mi s = mi self"
  by (auto simp: write_payload_def Let_def split: option.splits prod.splits if_splits)

lemma recorder_append_metadata2_mi:
  "mi (recorder_append_metadata2 c self pk) = mi self"
  by (simp add: recorder_append_metadata2_def note_rates_def link_metadata2_def Let_def
      split: option.splits)

lemma fenced_part_mi:
  assumes "fenced_part c2 self p = Inr s"
  shows "mi s = mi self"
  using assms
  by (auto simp: fenced_part_def Let_def final_packet_def recorder_append_metadata2_mi
      dest!: write_payload_mi split: if_splits sum.splits)

subsection \<open>Stopping a stopped recorder\<close>

text \<open>
  C4.  When the record mode is \<open>RM_STOPPED\<close>, \<open>recorder_stop\<close> returns \<open>FAILED\<close> and
  the recorder is the one it was given: no field has changed, no request flag is set.
  This holds whatever the recording thread would do and however long the call may poll.
\<close>

theorem recorder_stop_when_stopped:
  "record_mode self = RM_STOPPED \<Longrightarrow> recorder_stop thread polls self = Some (FAILED, self)"
  by (simp add: recorder_stop_def)

theorem recorder_stop_when_stopped_witness:
  "record_mode (recorder_init 0) = RM_STOPPED
   \<and> recorder_stop id 5 (recorder_init 0) = Some (FAILED, recorder_init 0)"
  using recorder_stop_when_stopped [of "recorder_init 0" id 5]
  by (simp add: recorder_init_def)

subsection \<open>Duplicate suppression in the chapter list\<close>

text \<open>The three strings of a chapter entry, as \<open>strsep\<close> would return them.\<close>

lemma same_as_last_own_fields:
  "same_as_last l (Some (artist l)) (Some (title l)) (Some (album l)) = Inr True"
  by (simp add: same_as_last_def strcmp_eq_def)

lemma append_skips_equal_fields:
  assumes "mi self \<noteq> []"
    and "metadata_fields p =
          (Some (artist (last (mi self))), Some (title (last (mi self))),
           Some (album (last (mi self))))"
  shows "recorder_append_metadata c self (Some p) = Inr self"
  using assms by (simp add: recorder_append_metadata_def same_as_last_own_fields)

text \<open>After an append that had its memory, the last entry carries the packet's strings.\<close>

lemma link_metadata_last:
  assumes "link_metadata True True a t b self = Inr s"
  shows "mi s \<noteq> [] \<and> a = Some (artist (last (mi s))) \<and> t = Some (title (last (mi s)))
    \<and> b = Some (album (last (mi s)))"
  using assms
  by (auto simp: link_metadata_def Let_def split: if_splits option.splits)

lemma same_as_last_True:
  "same_as_last l a t b = Inr True \<Longrightarrow>
   a = Some (artist l) \<and> t = Some (title l) \<and> b = Some (album l)"
  by (auto simp: same_as_last_def strcmp_eq_def split: option.splits sum.splits bool.splits)

lemma append_last_fields:
  assumes "recorder_append_metadata True self (Some p) = Inr s"
  shows "mi s \<noteq> [] \<and> metadata_fields p =
          (Some (artist (last (mi s))), Some (title (last (mi s))), Some (album (last (mi s))))"
proof -
  obtain a t b where f: "metadata_fields p = (a, t, b)"
    by (cases "metadata_fields p") auto
  show ?thesis
  proof (cases "mi self = []")
    case True
    with assms f have "link_metadata True True a t b self = Inr s"
      by (simp add: recorder_append_metadata_def)
    from link_metadata_last [OF this] f show ?thesis by simp
  next
    case False
    show ?thesis
    proof (cases "same_as_last (last (mi self)) a t b")
      case (Inl e)
      with assms f False show ?thesis by (simp add: recorder_append_metadata_def)
    next
      case (Inr d)
      show ?thesis
      proof (cases d)
        case True
        with assms f False Inr have "s = self" by (simp add: recorder_append_metadata_def)
        with same_as_last_True [of "last (mi self)" a t b] Inr True f False
        show ?thesis by simp
      next
        case dup: False
        with assms f False Inr have "link_metadata True True a t b self = Inr s"
          by (simp add: recorder_append_metadata_def)
        from link_metadata_last [OF this] f show ?thesis by simp
      qed
    qed
  qed
qed

text \<open>
  C9.  (1) A metadata packet whose artist, title and album are those of the last entry
  of the chapter list is skipped: \<open>recorder_append_metadata\<close> returns the recorder
  unchanged.  (2) Hence, of two consecutive metadata packets with the same three strings,
  the second adds nothing: when the first has been taken in (the allocation of its entry
  did not fail), the append of the second returns the recorder as it was after the first,
  so the chapter list holds one boundary for the two.
\<close>

theorem duplicate_metadata_is_skipped:
  "(mi self \<noteq> [] \<and>
    metadata_fields p =
      (Some (artist (last (mi self))), Some (title (last (mi self))),
       Some (album (last (mi self))))
    \<longrightarrow> recorder_append_metadata c self (Some p) = Inr self)
   \<and> (recorder_append_metadata True s0 (Some p1) = Inr s1 \<and>
      metadata_fields p2 = metadata_fields p1
      \<longrightarrow> recorder_append_metadata c s1 (Some p2) = Inr s1 \<and> mi s1 \<noteq> [])"
proof (intro conjI impI)
  assume "mi self \<noteq> [] \<and>
    metadata_fields p =
      (Some (artist (last (mi self))), Some (title (last (mi self))),
       Some (album (last (mi self))))"
  then show "recorder_append_metadata c self (Some p) = Inr self"
    by (simp add: append_skips_equal_fields)
next
  assume a: "recorder_append_metadata True s0 (Some p1) = Inr s1 \<and>
    metadata_fields p2 = metadata_fields p1"
  with append_last_fields [of s0 p1 s1]
  show "recorder_append_metadata c s1 (Some p2) = Inr s1"
    by (simp add: append_skips_equal_fields)
next
  assume a: "recorder_append_metadata True s0 (Some p1) = Inr s1 \<and>
    metadata_fields p2 = metadata_fields p1"
  with append_last_fields [of s0 p1 s1] show "mi s1 \<noteq> []" by simp
qed

lemma metadata_fields_song_packet:
  "metadata_fields song_packet = (Some [65], Some [84], Some [66])"
  by (simp add: metadata_fields_def song_packet_def c_str_def strsep_def)

theorem duplicate_metadata_is_skipped_witness:
  "mi ((recorder_init 0)\<lparr>mi := [song_entry]\<rparr>) \<noteq> []
   \<and> metadata_fields song_packet =
       (Some (artist (last (mi ((recorder_init 0)\<lparr>mi := [song_entry]\<rparr>)))),
        Some (title (last (mi ((recorder_init 0)\<lparr>mi := [song_entry]\<rparr>)))),
        Some (album (last (mi ((recorder_init 0)\<lparr>mi := [song_entry]\<rparr>)))))
   \<and> recorder_append_metadata True (recorder_init 0) (Some song_packet)
       = Inr ((recorder_init 0)\<lparr>mi := [song_entry]\<rparr>)
   \<and> metadata_fields song_packet = metadata_fields song_packet
   \<and> recorder_append_metadata False ((recorder_init 0)\<lparr>mi := [song_entry]\<rparr>) (Some song_packet)
       = Inr ((recorder_init 0)\<lparr>mi := [song_entry]\<rparr>)"
proof -
  have first: "recorder_append_metadata True (recorder_init 0) (Some song_packet)
     = Inr ((recorder_init 0)\<lparr>mi := [song_entry]\<rparr>)"
    by (simp add: recorder_append_metadata_def metadata_fields_song_packet link_metadata_def
        recorder_init_def song_entry_def)
  have fields: "metadata_fields song_packet =
       (Some (artist (last (mi ((recorder_init 0)\<lparr>mi := [song_entry]\<rparr>)))),
        Some (title (last (mi ((recorder_init 0)\<lparr>mi := [song_entry]\<rparr>)))),
        Some (album (last (mi ((recorder_init 0)\<lparr>mi := [song_entry]\<rparr>)))))"
    by (simp add: metadata_fields_song_packet song_entry_def)
  from first fields duplicate_metadata_is_skipped
    [of "(recorder_init 0)\<lparr>mi := [song_entry]\<rparr>" song_packet False "recorder_init 0"
        song_packet "(recorder_init 0)\<lparr>mi := [song_entry]\<rparr>" song_packet]
  show ?thesis by simp
qed

subsection \<open>Metadata packets and the serial fence\<close>

lemma recorder_packet_metadata:
  assumes "PF_METADATA \<in> flags p" and "recorder_packet c1 c2 self p = Inr s"
  shows "\<exists>s0. mi s0 = mi self \<and> recorder_append_metadata c1 s0 (Some p) = Inr s"
proof (cases "initial_serial self \<le> serial p")
  case True
  with assms obtain s0 where "fenced_part c2 self p = Inr s0"
    and "recorder_append_metadata c1 s0 (Some p) = Inr s"
    by (auto simp: recorder_packet_def split: sum.splits)
  with fenced_part_mi [of c2 self p s0] show ?thesis by blast
next
  case False
  with assms have "recorder_append_metadata c1 self (Some p) = Inr s"
    by (simp add: recorder_packet_def)
  then show ?thesis by blast
qed

lemma link_metadata_appends:
  "\<exists>s. link_metadata True True (Some a) (Some t) (Some b) self = Inr s
       \<and> mi s \<noteq> [] \<and> artist (last (mi s)) = a \<and> title (last (mi s)) = t
       \<and> album (last (mi s)) = b \<and> length (mi s) = Suc (length (mi self))
       \<and> time_offset (last (mi s)) = recording_length_ms self
       \<and> byte_offset (last (mi s)) = bytes_written self"
  by (cases "mi self = []") (simp_all add: link_metadata_def Let_def)

text \<open>
  C10.  (1) Whatever its serial, a packet with the \<open>METADATA\<close> flag that the recorder has
  taken from its encoder is handed to \<open>recorder_append_metadata\<close>, on a recorder that has
  the chapter list it had before the packet: the serial fence is no part of this.
  (2) So a metadata packet from below the watermark enters the chapter list: when its
  three strings are there and are not those of the last entry, the list grows by an
  entry with these strings, placed at the present length and size of the recording.
\<close>

theorem metadata_not_fenced:
  "(PF_METADATA \<in> flags p \<and> recorder_packet c1 c2 self p = Inr s
    \<longrightarrow> (\<exists>s0. mi s0 = mi self \<and> recorder_append_metadata c1 s0 (Some p) = Inr s))
   \<and> (PF_METADATA \<in> flags q \<and> serial q < initial_serial r
      \<and> metadata_fields q = (Some a, Some t, Some b)
      \<and> (mi r = [] \<or> same_as_last (last (mi r)) (Some a) (Some t) (Some b) = Inr False)
      \<longrightarrow> (\<exists>r'. recorder_packet True c2 r q = Inr r'
              \<and> mi r' \<noteq> [] \<and> artist (last (mi r')) = a \<and> title (last (mi r')) = t
              \<and> album (last (mi r')) = b \<and> length (mi r') = Suc (length (mi r))
              \<and> time_offset (last (mi r')) = recording_length_ms r
              \<and> byte_offset (last (mi r')) = bytes_written r))"
proof (intro conjI impI)
  assume "PF_METADATA \<in> flags p \<and> recorder_packet c1 c2 self p = Inr s"
  then show "\<exists>s0. mi s0 = mi self \<and> recorder_append_metadata c1 s0 (Some p) = Inr s"
    using recorder_packet_metadata by blast
next
  assume h: "PF_METADATA \<in> flags q \<and> serial q < initial_serial r
      \<and> metadata_fields q = (Some a, Some t, Some b)
      \<and> (mi r = [] \<or> same_as_last (last (mi r)) (Some a) (Some t) (Some b) = Inr False)"
  then have "recorder_packet True c2 r q = link_metadata True True (Some a) (Some t) (Some b) r"
    by (auto simp: recorder_packet_below_watermark recorder_append_metadata_def)
  with link_metadata_appends [of a t b r]
  show "\<exists>r'. recorder_packet True c2 r q = Inr r'
              \<and> mi r' \<noteq> [] \<and> artist (last (mi r')) = a \<and> title (last (mi r')) = t
              \<and> album (last (mi r')) = b \<and> length (mi r') = Suc (length (mi r))
              \<and> time_offset (last (mi r')) = recording_length_ms r
              \<and> byte_offset (last (mi r')) = bytes_written r"
    by simp
qed

theorem metadata_not_fenced_witness:
  "PF_METADATA \<in> flags song_packet
   \<and> recorder_packet True True ((recorder_init 0)\<lparr>initial_serial := 5\<rparr>) song_packet
       = Inr ((recorder_init 0)\<lparr>initial_serial := 5, mi := [song_entry]\<rparr>)
   \<and> (\<exists>s0. mi s0 = mi ((recorder_init 0)\<lparr>initial_serial := 5\<rparr>)
          \<and> recorder_append_metadata True s0 (Some song_packet)
              = Inr ((recorder_init 0)\<lparr>initial_serial := 5, mi := [song_entry]\<rparr>))
   \<and> serial song_packet < initial_serial ((recorder_init 0)\<lparr>initial_serial := 5\<rparr>)
   \<and> metadata_fields song_packet = (Some [65], Some [84], Some [66])
   \<and> mi ((recorder_init 0)\<lparr>initial_serial := 5\<rparr>) = []
   \<and> (\<exists>r'. recorder_packet True True ((recorder_init 0)\<lparr>initial_serial := 5\<rparr>) song_packet
              = Inr r'
          \<and> mi r' \<noteq> [] \<and> artist (last (mi r')) = [65] \<and> title (last (mi r')) = [84]
          \<and> album (last (mi r')) = [66]
          \<and> length (mi r') = Suc (length (mi ((recorder_init 0)\<lparr>initial_serial := 5\<rparr>))))"
proof -
  have flag: "PF_METADATA \<in> flags song_packet"
    and below: "serial song_packet < initial_serial ((recorder_init 0)\<lparr>initial_serial := 5\<rparr>)"
    and empty: "mi ((recorder_init 0)\<lparr>initial_serial := 5\<rparr>) = []"
    by (simp_all add: song_packet_def recorder_init_def)
  have run: "recorder_packet True True ((recorder_init 0)\<lparr>initial_serial := 5\<rparr>) song_packet
       = Inr ((recorder_init 0)\<lparr>initial_serial := 5, mi := [song_entry]\<rparr>)"
    using flag below
    by (simp add: recorder_packet_below_watermark recorder_append_metadata_def
        metadata_fields_song_packet link_metadata_def recorder_init_def song_entry_def)
  from flag below empty run metadata_fields_song_packet
    metadata_not_fenced
      [of song_packet True True "(recorder_init 0)\<lparr>initial_serial := 5\<rparr>"
          "(recorder_init 0)\<lparr>initial_serial := 5, mi := [song_entry]\<rparr>"
          song_packet "(recorder_init 0)\<lparr>initial_serial := 5\<rparr>" "[65]" "[84]" "[66]"]
  show ?thesis by simp
qed

subsection \<open>The serial fence of an attached recording\<close>

















subsection \<open>The temporary file of \<open>recorder_apply_mp3_tags\<close>\<close>

text \<open>
  The failure paths that follow the opening of both files remove the temporary file;
  the path of a failed \<open>rename\<close> leaves it, with the tagged copy in it.
\<close>

lemma abandon_removes_tmp: "files (abandon msg tmpname f w) tmpname = None"
  by (simp add: abandon_def report_def unlink_def store_def)

lemma rename_failure_keeps_tmp:
  "\<not> rename_ok io \<Longrightarrow> files (rename_tagged io path tmpname f w) tmpname = Some (content f)"
  by (simp add: rename_tagged_def report_def store_def Let_def)

text \<open>
  C3, at a failing \<open>rename\<close>.  The recorded file \<open>/r/a.mp3\<close> is tagged into
  \<open>/r/a.mp3.tmp\<close> and the rename fails: the failure is reported and the recorded file is
  what it was, but the temporary file is still there, holding the tag and the copy.
\<close>

theorem rename_failure_leaves_temporary_file:
  "\<not> isl (recorder_apply_mp3_tags (plain_tag_io\<lparr>rename_ok := False\<rparr>) mp3_recording
             recorded_disk)
   \<and> stderr_log (snd (projr (recorder_apply_mp3_tags (plain_tag_io\<lparr>rename_ok := False\<rparr>)
                               mp3_recording recorded_disk)))
       = [''recorder_apply_mp3_tags: failed to rename the temporary file'']
   \<and> files (snd (projr (recorder_apply_mp3_tags (plain_tag_io\<lparr>rename_ok := False\<rparr>)
                            mp3_recording recorded_disk))) ''/r/a.mp3''
       = Some [255, 251, 144, 0, 7, 7]
   \<and> files (snd (projr (recorder_apply_mp3_tags (plain_tag_io\<lparr>rename_ok := False\<rparr>)
                            mp3_recording recorded_disk))) ''/r/a.mp3.tmp''
       = Some [73, 68, 51, 255, 251, 144, 0, 7, 7]"
  by (simp add: recorder_apply_mp3_tags_def plain_tag_io_def mp3_recording_def
      recorder_init_def recorded_disk_def store_def unlink_def report_def fread_header_def
      tag_and_copy_def write_tags_def recorder_write_id3_tag_def recorder_write_xing_tag_def
      fwrite_bytes_def fwrite_item_def fopen_w_def rename_tagged_def Let_def)

text \<open>
  The sibling path, at the same input with a device that takes the tag but not the copy:
  the failure is reported and the temporary file is gone.
\<close>

lemma copy_failure_removes_temporary_file:
  "\<not> isl (recorder_apply_mp3_tags (plain_tag_io\<lparr>tmp_space := 5\<rparr>) mp3_recording recorded_disk)
   \<and> stderr_log (snd (projr (recorder_apply_mp3_tags (plain_tag_io\<lparr>tmp_space := 5\<rparr>)
                               mp3_recording recorded_disk)))
       = [''recorder_apply_mp3_tags: error copying the mp3 file'']
   \<and> files (snd (projr (recorder_apply_mp3_tags (plain_tag_io\<lparr>tmp_space := 5\<rparr>)
                            mp3_recording recorded_disk))) ''/r/a.mp3''
       = Some [255, 251, 144, 0, 7, 7]
   \<and> files (snd (projr (recorder_apply_mp3_tags (plain_tag_io\<lparr>tmp_space := 5\<rparr>)
                            mp3_recording recorded_disk))) ''/r/a.mp3.tmp'' = None"
  by (simp add: recorder_apply_mp3_tags_def plain_tag_io_def mp3_recording_def
      recorder_init_def recorded_disk_def store_def unlink_def report_def fread_header_def
      tag_and_copy_def write_tags_def recorder_write_id3_tag_def recorder_write_xing_tag_def
      fwrite_bytes_def fwrite_item_def fopen_w_def abandon_def Let_def)

subsection \<open>Writing through a stream\<close>















subsection \<open>Chains of segments and the search of the seek loop\<close>









subsection \<open>The interpolation of the seek table\<close>










subsection \<open>The entries of the seek table\<close>







subsection \<open>When the Xing tag is written\<close>



subsection \<open>The Xing tag of a variable bit rate recording\<close>





end
